theory Spec2Isabelle
  imports Main "HOL-Library.Sublist" "HOL-Library.Log_Nat"
begin

section \<open>JavaScript values and strings\<close>

text \<open>
  A JavaScript string is a sequence of code units; it is modelled as a \<open>string\<close>
  (a list of characters), and \<open>length\<close> counts code units.  A character stands for
  the code unit of the same number, so the strings of the model are the strings whose code
  units are below 256.  The operations below are the ones the worker applies to strings.
\<close>

text \<open>\<open>s.slice(k)\<close> for an integer \<open>k\<close>: a negative \<open>k\<close> counts from the end and is
  clamped at the start of the string.\<close>

definition slice_from :: "int \<Rightarrow> 'a list \<Rightarrow> 'a list" where
  "slice_from k s =
     (if k < 0 then drop (nat (max (int (length s) + k) 0)) s else drop (nat k) s)"

text \<open>\<open>s.slice(0, n)\<close> and \<open>s.substring(0, n)\<close> for \<open>n \<ge> 0\<close>.\<close>

definition slice_to :: "nat \<Rightarrow> 'a list \<Rightarrow> 'a list" where
  "slice_to n s = take n s"

text \<open>\<open>s.replace(/\/+$/, '')\<close>: the only match of \<open>/\/+$/\<close> is the maximal run of
  slashes that ends the string, and it is replaced by nothing.\<close>

definition strip_trailing_slashes :: "string \<Rightarrow> string" where
  "strip_trailing_slashes s = rev (dropWhile (\<lambda>c. c = CHR ''/'') (rev s))"

text \<open>Decimal rendering of a number inside a template literal.\<close>

fun digits_of :: "nat \<Rightarrow> string" where
  "digits_of n =
     (if n < 10 then [''0123456789'' ! n]
      else digits_of (n div 10) @ [''0123456789'' ! (n mod 10)])"

definition show_int :: "int \<Rightarrow> string" where
  "show_int i = (if i < 0 then CHR ''-'' # digits_of (nat (- i)) else digits_of (nat i))"

section \<open>JavaScript values\<close>

text \<open>
  The values that reach the logger: \<open>undefined\<close>, \<open>null\<close>, strings, integers,
  booleans, and an \<open>Error\<close> object (with its message).
\<close>

datatype jsval = Undefined | Null | Str string | Num int | Bool bool | ErrObj string

fun truthy :: "jsval \<Rightarrow> bool" where
  "truthy Undefined = False"
| "truthy Null = False"
| "truthy (Str s) = (s \<noteq> [])"
| "truthy (Num n) = (n \<noteq> 0)"
| "truthy (Bool b) = b"
| "truthy (ErrObj m) = True"

text \<open>\<open>a || b\<close>\<close>

definition js_or :: "jsval \<Rightarrow> jsval \<Rightarrow> jsval" where
  "js_or a b = (if truthy a then a else b)"

text \<open>\<open>v?.message\<close>: only an \<open>Error\<close> object has the property.\<close>

fun message_of :: "jsval \<Rightarrow> jsval" where
  "message_of (ErrObj m) = Str m"
| "message_of v = Undefined"

text \<open>\<open>v?.substring(0, n)\<close> as the logger applies it to the user agent (a string or
  \<open>undefined\<close>).\<close>

fun substring_opt :: "nat \<Rightarrow> jsval \<Rightarrow> jsval" where
  "substring_opt n (Str s) = Str (slice_to n s)"
| "substring_opt n v = Undefined"

section \<open>Double-precision arithmetic\<close>

text \<open>
  JavaScript numbers are IEEE 754 binary64 values.  Every finite double is a rational, and
  each arithmetic operation returns the double nearest to the exact result, ties going to
  the even significand.  \<open>fl64\<close> is that rounding for results below the overflow
  threshold (53-bit significand, least exponent \<open>-1074\<close>); the integers the logger counts
  and the millisecond durations it stores are exact doubles.
\<close>

definition pow2 :: "int \<Rightarrow> rat" where
  "pow2 e = (if 0 \<le> e then 2 ^ nat e else 1 / 2 ^ nat (- e))"

definition round_half_even :: "rat \<Rightarrow> int" where
  "round_half_even x =
     (let f = \<lfloor>x\<rfloor>; r = x - of_int f in
      if r < 1 / 2 then f else if 1 / 2 < r then f + 1 else if even f then f else f + 1)"

text \<open>The exponent \<open>e\<close> with \<open>2 ^ e \<le> x < 2 ^ (e + 1)\<close>, for \<open>x > 0\<close>.\<close>

definition binade :: "rat \<Rightarrow> int" where
  "binade x =
     (let (p, q) = quotient_of x; e = bitlen p - bitlen q in
      if pow2 e \<le> x then e else e - 1)"

definition fl64 :: "rat \<Rightarrow> rat" where
  "fl64 x =
     (if x = 0 then 0
      else let a = \<bar>x\<bar>; e = max (binade a - 52) (- 1074); m = round_half_even (a / pow2 e)
           in sgn x * of_int m * pow2 e)"

definition fadd :: "rat \<Rightarrow> rat \<Rightarrow> rat" where "fadd a b = fl64 (a + b)"

definition fmul :: "rat \<Rightarrow> rat \<Rightarrow> rat" where "fmul a b = fl64 (a * b)"

definition fdiv :: "rat \<Rightarrow> rat \<Rightarrow> rat" where "fdiv a b = fl64 (a / b)"

text \<open>\<open>Math.round\<close>: the nearest integer, a tie going up.\<close>

definition Math_round :: "rat \<Rightarrow> int" where
  "Math_round x = \<lfloor>x + 1 / 2\<rfloor>"

section \<open>The operation recorder (\<open>TranscodeLogger\<close>)\<close>

text \<open>
  A log entry is an object; a key that an entry does not have reads as \<open>undefined\<close>.
  \<open>duration\<close> holds a millisecond count and \<open>success\<close> a boolean when present
  (\<open>None\<close> stands for an absent key); the other fields hold what the caller passed.
  The same object shape serves as the argument of the three logging methods.
\<close>

record log_entry =
  log_id :: jsval
  status :: jsval
  user :: jsval
  filename :: jsval
  fileSize :: jsval
  clientIP :: jsval
  userAgent :: jsval
  origin :: jsval
  platform :: jsval
  deviceInfo :: jsval
  browserInfo :: jsval
  userHP :: jsval
  correlationId :: jsval
  viewport :: jsval
  connectionType :: jsval
  startTime :: jsval
  cid :: jsval
  gateway_url :: jsval
  duration :: "int option"
  err :: jsval
  success :: "bool option"
  timestamp :: jsval

definition no_entry :: log_entry where
  "no_entry = \<lparr> log_id = Undefined, status = Undefined, user = Undefined,
     filename = Undefined, fileSize = Undefined, clientIP = Undefined,
     userAgent = Undefined, origin = Undefined, platform = Undefined,
     deviceInfo = Undefined, browserInfo = Undefined, userHP = Undefined,
     correlationId = Undefined, viewport = Undefined, connectionType = Undefined,
     startTime = Undefined, cid = Undefined, gateway_url = Undefined, duration = None,
     err = Undefined, success = None, timestamp = Undefined \<rparr>"

record logger =
  maxLogs :: int
  logs :: "log_entry list"

text \<open>\<open>new TranscodeLogger()\<close> before \<open>loadLogs\<close>: \<open>maxLogs = 100\<close>, no entries.\<close>

definition new_logger :: logger where
  "new_logger = \<lparr> maxLogs = 100, logs = [] \<rparr>"

text \<open>
  \<open>saveLogs\<close>: the in-memory sequence is cut to its last \<open>maxLogs\<close> entries before the
  file is written; a failing write is caught and leaves the sequence as cut.
\<close>

definition saveLogs :: "logger \<Rightarrow> logger" where
  "saveLogs L = L\<lparr> logs := slice_from (- maxLogs L) (logs L) \<rparr>"

text \<open>\<open>addLog\<close>; \<open>ts\<close> is \<open>new Date().toISOString()\<close> at the call.\<close>

definition enrich :: "string \<Rightarrow> log_entry \<Rightarrow> log_entry" where
  "enrich ts logEntry =
     logEntry\<lparr> timestamp := Str ts, log_id := js_or (log_id logEntry) (Str ''unknown'') \<rparr>"

definition addLog :: "string \<Rightarrow> log_entry \<Rightarrow> logger \<Rightarrow> logger" where
  "addLog ts logEntry L = saveLogs (L\<lparr> logs := logs L @ [enrich ts logEntry] \<rparr>)"

text \<open>
  \<open>loadLogs\<close>: \<open>file\<close> is the content of the log file (\<open>None\<close> when there is none),
  \<open>parse\<close> is \<open>JSON.parse\<close> on one line (\<open>None\<close> when it throws).  Any exception
  leaves the logger empty.
\<close>

text \<open>
  White space as \<open>trim\<close> and \<open>parseInt\<close> skip it, by code unit: tab, line feed,
  vertical tab, form feed, carriage return, space, the no-break space, the space
  separators of Unicode, the line and paragraph separators and the byte order mark.  Only
  the first seven are below 256.
\<close>

definition is_space_unit :: "int \<Rightarrow> bool" where
  "is_space_unit n =
     (n \<in> set [0x09, 0x0A, 0x0B, 0x0C, 0x0D, 0x20, 0xA0, 0x1680, 0x2028, 0x2029, 0x202F,
               0x205F, 0x3000, 0xFEFF]
      \<or> (0x2000 \<le> n \<and> n \<le> 0x200A))"

definition is_space :: "char \<Rightarrow> bool" where
  "is_space c = is_space_unit (of_char c)"

definition trim :: "string \<Rightarrow> string" where
  "trim s = rev (dropWhile is_space (rev (dropWhile is_space s)))"

fun split_lines :: "string \<Rightarrow> string list" where
  "split_lines [] = [[]]"
| "split_lines (c # cs) =
     (if c = CHR 0x0A then [] # split_lines cs
      else (case split_lines cs of [] \<Rightarrow> [[c]] | l # ls \<Rightarrow> (c # l) # ls))"

definition loadLogs ::
  "(string \<Rightarrow> log_entry option) \<Rightarrow> string option \<Rightarrow> logger \<Rightarrow> logger" where
  "loadLogs parse file L =
     (case file of
        None \<Rightarrow> L
      | Some data \<Rightarrow>
          (case those (map parse (filter (\<lambda>line. trim line \<noteq> []) (split_lines (trim data)))) of
             None \<Rightarrow> L\<lparr> logs := [] \<rparr>
           | Some entries \<Rightarrow> L\<lparr> logs := slice_from (- maxLogs L) entries \<rparr>))"

text \<open>\<open>logTranscodeStart\<close>; \<open>now\<close> is \<open>Date.now()\<close>.\<close>

definition logTranscodeStart :: "string \<Rightarrow> int \<Rightarrow> log_entry \<Rightarrow> logger \<Rightarrow> logger" where
  "logTranscodeStart ts now a L =
     addLog ts (no_entry\<lparr>
       log_id := log_id a,
       status := Str ''started'',
       user := js_or (user a) (Str ''anonymous''),
       filename := filename a,
       fileSize := fileSize a,
       clientIP := clientIP a,
       userAgent := substring_opt 100 (userAgent a),
       origin := origin a,
       platform := js_or (platform a) (Str ''unknown''),
       deviceInfo := js_or (deviceInfo a) (Str ''unknown''),
       browserInfo := js_or (browserInfo a) (Str []),
       userHP := js_or (userHP a) (Num 0),
       correlationId := js_or (correlationId a) Null,
       viewport := js_or (viewport a) Null,
       connectionType := js_or (connectionType a) Null,
       startTime := Num now \<rparr>) L"

text \<open>\<open>this.logs.find(log => log.id === id && log.status === 'started')\<close>\<close>

definition find_start :: "jsval \<Rightarrow> logger \<Rightarrow> log_entry option" where
  "find_start i L = find (\<lambda>log. log_id log = i \<and> status log = Str ''started'') (logs L)"

text \<open>\<open>startLog?.field || null\<close>\<close>

definition inherit :: "log_entry option \<Rightarrow> (log_entry \<Rightarrow> jsval) \<Rightarrow> jsval" where
  "inherit startLog field =
     (case startLog of None \<Rightarrow> Null | Some s \<Rightarrow> js_or (field s) Null)"

definition logTranscodeComplete :: "string \<Rightarrow> log_entry \<Rightarrow> logger \<Rightarrow> logger" where
  "logTranscodeComplete ts a L =
     (let startLog = find_start (log_id a) L in
      addLog ts (no_entry\<lparr>
        log_id := log_id a,
        status := Str ''completed'',
        user := js_or (user a) (Str ''anonymous''),
        filename := filename a,
        cid := cid a,
        gateway_url := gateway_url a,
        duration := duration a,
        clientIP := clientIP a,
        success := Some True,
        platform := inherit startLog platform,
        deviceInfo := inherit startLog deviceInfo,
        browserInfo := inherit startLog browserInfo,
        userHP := inherit startLog userHP,
        correlationId := inherit startLog correlationId,
        viewport := inherit startLog viewport,
        connectionType := inherit startLog connectionType \<rparr>) L)"

definition logTranscodeError :: "string \<Rightarrow> log_entry \<Rightarrow> logger \<Rightarrow> logger" where
  "logTranscodeError ts a L =
     (let startLog = find_start (log_id a) L in
      addLog ts (no_entry\<lparr>
        log_id := log_id a,
        status := Str ''failed'',
        user := js_or (user a) (Str ''anonymous''),
        filename := filename a,
        err := js_or (js_or (message_of (err a)) (err a)) (Str ''Unknown error''),
        duration := duration a,
        clientIP := clientIP a,
        success := Some False,
        platform := inherit startLog platform,
        deviceInfo := inherit startLog deviceInfo,
        browserInfo := inherit startLog browserInfo,
        userHP := inherit startLog userHP,
        correlationId := inherit startLog correlationId,
        viewport := inherit startLog viewport,
        connectionType := inherit startLog connectionType \<rparr>) L)"

text \<open>\<open>getStats\<close>\<close>

record stats =
  total :: nat
  successful :: nat
  failed :: nat
  inProgress :: nat
  avgDuration :: int
  successRate :: int

text \<open>\<open>log.duration && log.success === true\<close>: a duration that is absent or zero is
  falsy.\<close>

definition timed_success :: "log_entry \<Rightarrow> bool" where
  "timed_success entry = ((case duration entry of None \<Rightarrow> False | Some d \<Rightarrow> d \<noteq> 0)
                           \<and> success entry = Some True)"

text \<open>\<open>arr.reduce((sum, log, _, arr) => sum + log.duration / arr.length, 0)\<close>; every
  entry of \<open>arr\<close> has passed the filter, so its duration is present.\<close>

definition avg_of :: "log_entry list \<Rightarrow> rat" where
  "avg_of arr =
     foldl (\<lambda>sum log. case duration log of
                         None \<Rightarrow> sum
                       | Some d \<Rightarrow> fadd sum (fdiv (of_int d) (of_nat (length arr))))
           0 arr"

definition getStats :: "logger \<Rightarrow> stats" where
  "getStats L =
     (let n = length (logs L);
          ok = length (filter (\<lambda>log. success log = Some True) (logs L));
          ko = length (filter (\<lambda>log. success log = Some False) (logs L));
          running = length (filter (\<lambda>log. status log = Str ''started''
                                          \<or> status log = Str ''processing'') (logs L));
          avg = avg_of (filter timed_success (logs L))
      in \<lparr> total = n, successful = ok, failed = ko, inProgress = running,
            avgDuration = Math_round avg,
            successRate = (if n > 0 then Math_round (fmul (fdiv (of_nat ok) (of_nat n)) 100)
                           else 0) \<rparr>)"

section \<open>The encoding subprocess (\<open>runFfmpeg\<close>, src/server.js)\<close>

text \<open>
  A rejected promise carries \<open>new Error(message)\<close>; a \<open>TypeError\<close> raised by the
  runtime is an error with a message too.
\<close>

datatype error = Error (message: string)

text \<open>
  The child process is described by what the \<open>close\<close> handler sees: the chunks the
  \<open>data\<close> handler received on the diagnostic stream, in order, and the exit code
  (\<open>None\<close> is JavaScript's \<open>null\<close>, reported when a signal ended the process).
  Progress notifications go to the console only and are not part of the result.
\<close>

definition show_code :: "int option \<Rightarrow> string" where
  "show_code code = (case code of None \<Rightarrow> ''null'' | Some c \<Rightarrow> show_int c)"

definition runFfmpeg :: "string list \<Rightarrow> int option \<Rightarrow> error + unit" where
  "runFfmpeg chunks code =
     (let stderr = foldl (\<lambda>acc d. acc @ d) [] chunks in
      if code = Some 0 then Inr ()
      else Inl (Error (''ffmpeg exited with '' @ show_code code @ '': ''
                        @ slice_from (- 4000) stderr)))"


section \<open>Configuration and the gateway URL\<close>

text \<open>\<open>process.env\<close> maps a variable name to its value when the variable is set.\<close>

type_synonym env = "string \<Rightarrow> string option"

text \<open>\<open>v || d\<close> for a string \<open>v\<close> that may be \<open>undefined\<close>: unset and empty give
  \<open>d\<close>.\<close>

definition opt_or :: "string option \<Rightarrow> string \<Rightarrow> string" where
  "opt_or v d = (case v of None \<Rightarrow> d | Some s \<Rightarrow> if s = [] then d else s)"

text \<open>\<open>const PINATA_GATEWAY = process.env.PINATA_GATEWAY || 'https://gateway.pinata.cloud/ipfs'\<close>
  (src/server.js).\<close>

definition PINATA_GATEWAY :: "env \<Rightarrow> string" where
  "PINATA_GATEWAY e = opt_or (e ''PINATA_GATEWAY'') ''https://gateway.pinata.cloud/ipfs''"

text \<open>\<open>`${PINATA_GATEWAY.replace(/\/+$/, '')}/${cid}`\<close> (src/server.js), with
  \<open>ipfsHash\<close> for \<open>cid\<close>.\<close>

definition gatewayUrl :: "env \<Rightarrow> string \<Rightarrow> string" where
  "gatewayUrl e ipfsHash = strip_trailing_slashes (PINATA_GATEWAY e) @ ''/'' @ ipfsHash"

text \<open>The server variant with the prober strips the slashes when it reads the
  configuration and builds the URL as \<open>`${PINATA_GATEWAY}/${cid}`\<close>.\<close>

definition PINATA_GATEWAY_stripped :: "env \<Rightarrow> string" where
  "PINATA_GATEWAY_stripped e =
     strip_trailing_slashes (opt_or (e ''PINATA_GATEWAY'') ''https://gateway.pinata.cloud/ipfs'')"

definition gatewayUrl_probing :: "env \<Rightarrow> string \<Rightarrow> string" where
  "gatewayUrl_probing e ipfsHash = PINATA_GATEWAY_stripped e @ ''/'' @ ipfsHash"

section \<open>The probing server variant: probe, then remux or encode\<close>

text \<open>
  \<open>execProbe\<close> resolves with the codec names and the frame size of the first video and
  the first audio stream that the probe printed; a missing stream, an empty name and a
  zero size all read as \<open>null\<close> (\<open>v?.codec_name || null\<close>).
\<close>

record stream =
  codec_type :: string
  codec_name :: "string option"
  stream_width :: "nat option"
  stream_height :: "nat option"

record media_info =
  vcodec :: "string option"
  acodec :: "string option"
  width :: "nat option"
  height :: "nat option"

definition str_or_null :: "string option \<Rightarrow> string option" where
  "str_or_null v = (case v of None \<Rightarrow> None | Some s \<Rightarrow> if s = [] then None else Some s)"

definition nat_or_null :: "nat option \<Rightarrow> nat option" where
  "nat_or_null v = (case v of None \<Rightarrow> None | Some n \<Rightarrow> if n = 0 then None else Some n)"

text \<open>
  \<open>code\<close> is the exit code of the probe, \<open>errs\<close> its diagnostic output and
  \<open>parsed\<close> the result of \<open>JSON.parse(out)\<close> followed by \<open>data.streams || []\<close>
  (\<open>Inl\<close> when parsing throws).
\<close>

definition execProbe :: "int option \<Rightarrow> string \<Rightarrow> error + stream list \<Rightarrow> error + media_info" where
  "execProbe code errs parsed =
     (if code \<noteq> Some 0 then Inl (Error (''ffprobe failed: '' @ errs))
      else case parsed of
             Inl e \<Rightarrow> Inl e
           | Inr streams \<Rightarrow>
               (let v = find (\<lambda>s. codec_type s = ''video'') streams;
                    a = find (\<lambda>s. codec_type s = ''audio'') streams
                in Inr \<lparr> vcodec = str_or_null (Option.bind v codec_name),
                         acodec = str_or_null (Option.bind a codec_name),
                         width = nat_or_null (Option.bind v stream_width),
                         height = nat_or_null (Option.bind v stream_height) \<rparr>))"

text \<open>
  A number as \<open>parseInt\<close> returns it: \<open>NaN\<close>, an infinity, or a finite double
  whose value is an integer.
\<close>

datatype number = NaN | PosInfinity | NegInfinity | Finite int

text \<open>The double nearest to an integer; beyond the largest double, an infinity.\<close>

definition to_double :: "int \<Rightarrow> number" where
  "to_double v =
     (let r = fl64 (of_int v)
      in if 2 ^ 1024 \<le> \<bar>r\<bar> then (if v < 0 then NegInfinity else PosInfinity)
         else Finite \<lfloor>r\<rfloor>)"

text \<open>
  \<open>parseInt(s, 10)\<close>: leading white space, an optional sign, then the longest run of
  decimal digits; \<open>NaN\<close> when there is no digit, else the double nearest to the integer
  that the digits write.
\<close>

definition is_digit :: "char \<Rightarrow> bool" where
  "is_digit c = (48 \<le> (of_char c :: nat) \<and> (of_char c :: nat) \<le> 57)"

definition digits_value :: "string \<Rightarrow> int" where
  "digits_value ds = foldl (\<lambda>acc c. 10 * acc + (int (of_char c) - 48)) 0 ds"

definition parseInt10 :: "string \<Rightarrow> number" where
  "parseInt10 s =
     (let t = dropWhile is_space s;
          neg = (case t of [] \<Rightarrow> False | c # r \<Rightarrow> c = CHR ''-'');
          r = (case t of [] \<Rightarrow> [] | c # r \<Rightarrow> if c = CHR ''-'' \<or> c = CHR ''+'' then r else t);
          ds = takeWhile is_digit r
      in if ds = [] then NaN
         else to_double (if neg then - digits_value ds else digits_value ds))"

text \<open>\<open>const maxH = process.env.FFMPEG_MAX_HEIGHT ? parseInt(process.env.FFMPEG_MAX_HEIGHT, 10) : null\<close>;
  \<open>None\<close> is \<open>null\<close>.\<close>

definition maxH :: "env \<Rightarrow> number option" where
  "maxH e =
     (case e ''FFMPEG_MAX_HEIGHT'' of
        None \<Rightarrow> None
      | Some s \<Rightarrow> if s = [] then None else Some (parseInt10 s))"

text \<open>The guard \<open>maxH && Number.isFinite(maxH)\<close> holds for a finite number other than
  zero (\<open>null\<close>, \<open>NaN\<close> and zero are falsy, the infinities are not finite);
  \<open>scale_target\<close> is that number.\<close>

definition scale_target :: "number option \<Rightarrow> int option" where
  "scale_target m =
     (case m of
        Some (Finite n) \<Rightarrow> if n \<noteq> 0 then Some n else None
      | _ \<Rightarrow> None)"

text \<open>
  A number inside a template literal (\<open>Number::toString\<close>).  For a positive double
  \<open>v\<close> whose value is an integer, the digits are those of the least \<open>k\<close>-digit
  integer \<open>s\<close> such that \<open>s * 10 ^ (n - k)\<close> is a decimal that rounds to \<open>v\<close>; among
  several such \<open>s\<close> the one nearest to \<open>v\<close> is taken, an even one on a tie.  Up to
  \<open>n = 21\<close> the digits are followed by \<open>n - k\<close> zeros, beyond that the exponent
  notation is used.
\<close>

function int_digits :: "int \<Rightarrow> string" where
  "int_digits v =
     (if v < 10 then [''0123456789'' ! nat v]
      else int_digits (v div 10) @ [''0123456789'' ! nat (v mod 10)])"
  by pat_completeness auto
termination
  by (relation "measure nat") auto

function ndigits :: "int \<Rightarrow> nat" where
  "ndigits v = (if v < 10 then 1 else Suc (ndigits (v div 10)))"
  by pat_completeness auto
termination
  by (relation "measure nat") auto

definition digit_candidates :: "nat \<Rightarrow> nat \<Rightarrow> int \<Rightarrow> (int \<times> nat) list" where
  "digit_candidates k n v =
     map (\<lambda>s. (s, n))
       (filter (\<lambda>s. 10 ^ (k - 1) \<le> s \<and> s < 10 ^ k
                    \<and> fl64 (of_int (s * 10 ^ (n - k))) = of_int v)
          [v div 10 ^ (n - k), v div 10 ^ (n - k) + 1])"

definition decimal_distance :: "nat \<Rightarrow> int \<Rightarrow> int \<times> nat \<Rightarrow> int" where
  "decimal_distance k v c = \<bar>fst c * 10 ^ (snd c - k) - v\<bar>"

fun nearest_candidate :: "nat \<Rightarrow> int \<Rightarrow> (int \<times> nat) list \<Rightarrow> (int \<times> nat) option" where
  "nearest_candidate k v [] = None"
| "nearest_candidate k v (c # cs) =
     (case nearest_candidate k v cs of
        None \<Rightarrow> Some c
      | Some b \<Rightarrow>
          Some (if decimal_distance k v c < decimal_distance k v b
                   \<or> (decimal_distance k v c = decimal_distance k v b \<and> even (fst c))
                then c else b))"

fun shortest_digits :: "nat \<Rightarrow> nat \<Rightarrow> int \<Rightarrow> int \<times> nat \<times> nat" where
  "shortest_digits 0 k v = (v, ndigits v, ndigits v)"
| "shortest_digits (Suc fuel) k v =
     (case nearest_candidate k v
             (digit_candidates k (ndigits v) v @ digit_candidates k (ndigits v + 1) v) of
        Some c \<Rightarrow> (fst c, k, snd c)
      | None \<Rightarrow> shortest_digits fuel (Suc k) v)"

definition positive_to_string :: "int \<Rightarrow> string" where
  "positive_to_string v =
     (case shortest_digits 17 1 v of
        (s, k, n) \<Rightarrow>
          if n \<le> 21 then int_digits s @ replicate (n - k) (CHR ''0'')
          else (case int_digits s of
                  [] \<Rightarrow> []
                | c # cs \<Rightarrow> c # (if cs = [] then [] else CHR ''.'' # cs))
               @ ''e+'' @ int_digits (int (n - 1)))"

fun number_to_string :: "number \<Rightarrow> string" where
  "number_to_string NaN = ''NaN''"
| "number_to_string PosInfinity = ''Infinity''"
| "number_to_string NegInfinity = ''-Infinity''"
| "number_to_string (Finite i) =
     (if i = 0 then ''0''
      else if i < 0 then CHR ''-'' # positive_to_string (- i)
      else positive_to_string i)"

text \<open>The argument list handed to \<open>runFfmpeg\<close> after the probe (the branch
  \<open>if (info.vcodec === 'h264' && info.acodec === 'aac')\<close> and its \<open>else\<close>).\<close>

definition remux_args :: "string \<Rightarrow> string \<Rightarrow> string list" where
  "remux_args inputPath outputPath =
     [''-y'', ''-i'', inputPath, ''-c'', ''copy'', ''-movflags'', ''+faststart'', outputPath]"

definition encode_args :: "env \<Rightarrow> string \<Rightarrow> string \<Rightarrow> string list" where
  "encode_args e inputPath outputPath =
     [''-y'', ''-i'', inputPath]
     @ (case scale_target (maxH e) of
          None \<Rightarrow> []
        | Some n \<Rightarrow> [''-vf'', ''scale=-2:'' @ number_to_string (Finite n)])
     @ [''-c:v'', ''libx264'',
        ''-preset'', opt_or (e ''X264_PRESET'') ''veryfast'',
        ''-crf'', opt_or (e ''X264_CRF'') ''22'',
        ''-threads'', opt_or (e ''FFMPEG_THREADS'') ''1'',
        ''-c:a'', ''aac'',
        ''-b:a'', opt_or (e ''AAC_BITRATE'') ''128k'',
        ''-movflags'', ''+faststart'',
        outputPath]"

definition transcode_args :: "env \<Rightarrow> string \<Rightarrow> string \<Rightarrow> media_info \<Rightarrow> string list" where
  "transcode_args e inputPath outputPath info =
     (if vcodec info = Some ''h264'' \<and> acodec info = Some ''aac''
      then remux_args inputPath outputPath
      else encode_args e inputPath outputPath)"

text \<open>
  The height of the frames that the encoder is asked to produce from a source of height
  \<open>source_height\<close>, which is the height of its output when the encode succeeds.  This
  is the encoder's documented reading of the arguments, not code of the worker: under
  \<open>-c copy\<close> the frames are copied as they are; with the video filter \<open>scale=-2:h\<close>
  and a positive \<open>h\<close> every frame is resized to height \<open>h\<close>; when \<open>h\<close> is
  negative both sizes of the filter are negative and the input size is used; without a
  video filter the frame size is kept.
\<close>

definition output_height :: "env \<Rightarrow> media_info \<Rightarrow> int \<Rightarrow> int" where
  "output_height e info source_height =
     (if vcodec info = Some ''h264'' \<and> acodec info = Some ''aac'' then source_height
      else case scale_target (maxH e) of
             None \<Rightarrow> source_height
           | Some h \<Rightarrow> if 0 < h then h else source_height)"

section \<open>The request handler (\<open>app.post('/transcode')\<close>, src/server.js)\<close>

text \<open>Lower case and substring search, as \<open>parseDeviceInfo\<close> uses them on the user
  agent.  Among the code units below 256 the upper-case letters are \<open>A\<close> to \<open>Z\<close>
  and 192 to 222 without 215; each has its lower-case letter 32 above.\<close>

definition lower :: "char \<Rightarrow> char" where
  "lower c =
     (let n = (of_char c :: nat)
      in if (65 \<le> n \<and> n \<le> 90) \<or> (192 \<le> n \<and> n \<le> 222 \<and> n \<noteq> 215)
         then char_of (n + 32) else c)"

definition toLowerCase :: "string \<Rightarrow> string" where
  "toLowerCase s = map lower s"

definition str_includes :: "string \<Rightarrow> string \<Rightarrow> bool" where
  "str_includes s w = sublist w s"

definition parseDeviceInfo :: "string \<Rightarrow> jsval \<Rightarrow> jsval" where
  "parseDeviceInfo ua_header providedDeviceInfo =
     (if truthy providedDeviceInfo then providedDeviceInfo
      else
        let ua = toLowerCase ua_header;
            deviceType =
              (if str_includes ua ''mobile'' \<or> str_includes ua ''android'' then ''mobile''
               else if str_includes ua ''tablet'' \<or> str_includes ua ''ipad'' then ''tablet''
               else ''desktop'');
            os =
              (if str_includes ua ''windows'' then ''windows''
               else if str_includes ua ''mac'' then ''macos''
               else if str_includes ua ''linux'' then ''linux''
               else if str_includes ua ''android'' then ''android''
               else if str_includes ua ''iphone'' \<or> str_includes ua ''ipad'' then ''ios''
               else ''unknown'');
            browser =
              (if str_includes ua ''chrome'' \<and> \<not> str_includes ua ''edg'' then ''chrome''
               else if str_includes ua ''firefox'' then ''firefox''
               else if str_includes ua ''safari'' \<and> \<not> str_includes ua ''chrome'' then ''safari''
               else if str_includes ua ''edg'' then ''edge''
               else ''unknown'')
        in Str (deviceType @ ''/'' @ os @ ''/'' @ browser))"

text \<open>A value inside a template literal or under \<open>toString()\<close>.\<close>

fun to_string :: "jsval \<Rightarrow> string" where
  "to_string Undefined = ''undefined''"
| "to_string Null = ''null''"
| "to_string (Str s) = s"
| "to_string (Num n) = number_to_string (to_double n)"
| "to_string (Bool b) = (if b then ''true'' else ''false'')"
| "to_string (ErrObj m) = (if m = [] then ''Error'' else ''Error: '' @ m)"

text \<open>
  The request as the handler reads it: \<open>req.file\<close> (set by the upload middleware, which
  has stored the file under \<open>req.file.path\<close>, when the field \<open>video\<close> came with the
  request), \<open>req.ip\<close>, \<open>req.connection.remoteAddress\<close>, \<open>req.get(name)\<close> and
  \<open>req.body\<close>.
\<close>

record upload =
  originalname :: string
  size_bytes :: nat
  tmp_path :: string

record request =
  req_file :: "upload option"
  req_ip :: "string option"
  remoteAddress :: "string option"
  req_get :: "string \<Rightarrow> string option"
  req_body :: "(string \<Rightarrow> string option) option"

text \<open>
  Everything else the handler reads or calls: the two \<open>uuidv4()\<close> results, the clock
  readings and the outcomes of the encoder and of the pinning service.  \<open>pin_result\<close> is
  \<open>Inl\<close> when the upload is rejected or answers without a body, else the \<open>IpfsHash\<close>
  of the answer.  \<open>files\<close> are the paths that exist when the handler is entered and
  \<open>locked\<close> those whose removal the file system refuses.
\<close>

record world =
  uuid_first :: string
  uuid_second :: string
  tmpdir :: string
  now_start :: int
  now_logged :: int
  now_end :: int
  iso_start :: string
  iso_meta :: string
  iso_end :: string
  iso_response :: string
  ffmpeg_chunks :: "string list"
  ffmpeg_code :: "int option"
  ffmpeg_wrote :: bool
  pin_result :: "error + jsval"
  files :: "string set"
  locked :: "string set"

text \<open>The calls that leave the process, in order.\<close>

datatype call =
  Ffmpeg "string list"
| Pin string "(string \<times> jsval) list"
| Unlink string

record response =
  status_code :: nat
  body :: "(string \<times> jsval) list"

text \<open>
  What a run of the handler leaves behind: the response it has sent (\<open>None\<close> when it has
  sent none), the exception with which its promise is rejected (\<open>None\<close> when it
  returns), the recorder, the calls and the files.
\<close>

record outcome =
  reply :: "response option"
  rejected :: "error option"
  recorder :: logger
  trace :: "call list"
  files_after :: "string set"

text \<open>\<open>res.json(obj)\<close>: a key whose value is \<open>undefined\<close> is not serialised.\<close>

definition json :: "(string \<times> jsval) list \<Rightarrow> (string \<times> jsval) list" where
  "json obj = filter (\<lambda>kv. snd kv \<noteq> Undefined) obj"

text \<open>\<open>fs.unlinkSync\<close> and \<open>try { fs.unlinkSync(p); } catch { }\<close>.\<close>

definition unlinkSync :: "string set \<Rightarrow> string \<Rightarrow> string set \<Rightarrow> error + string set" where
  "unlinkSync lck p fs =
     (if p \<notin> fs then Inl (Error ''ENOENT: no such file or directory'')
      else if p \<in> lck then Inl (Error ''EPERM: operation not permitted'')
      else Inr (fs - {p}))"

definition try_unlink :: "string set \<Rightarrow> string \<Rightarrow> string set \<Rightarrow> string set" where
  "try_unlink lck p fs = (case unlinkSync lck p fs of Inl e \<Rightarrow> fs | Inr fs' \<Rightarrow> fs')"

text \<open>Evaluation in sequence: an exception ends it.\<close>

definition then_do :: "error + 'a \<Rightarrow> ('a \<Rightarrow> error + 'b) \<Rightarrow> error + 'b" where
  "then_do r k = (case r of Inl ex \<Rightarrow> Inl ex | Inr v \<Rightarrow> k v)"

text \<open>
  The handler uses the identifiers \<open>formData\<close> (lines 173 to 180) and \<open>sessionId\<close>
  (line 256).  Neither is a parameter or a local of the handler, server.js imports or
  declares neither (it binds \<open>express\<close>, \<open>multer\<close>, \<open>spawn\<close>, \<open>fs\<close>, \<open>path\<close>,
  \<open>os\<close>, \<open>morgan\<close>, \<open>axios\<close>, \<open>FormData\<close>, \<open>uuidv4\<close>, \<open>TranscodeLogger\<close>,
  \<open>app\<close>, \<open>logger\<close>, \<open>PORT\<close>, \<open>PINATA_JWT\<close>, \<open>PINATA_GATEWAY\<close>, \<open>upload\<close>,
  \<open>parseDeviceInfo\<close> and \<open>runFfmpeg\<close>), and neither is a property of the global
  object.  Evaluating such an identifier raises a \<open>ReferenceError\<close>.
\<close>

definition formData_get :: "string \<Rightarrow> error + jsval" where
  "formData_get name = Inl (Error ''formData is not defined'')"

definition sessionId_ref :: "error + jsval" where
  "sessionId_ref = Inl (Error ''sessionId is not defined'')"

text \<open>\<open>formData.get(name) || d\<close>\<close>

definition form_or :: "string \<Rightarrow> jsval \<Rightarrow> error + jsval" where
  "form_or name d = then_do (formData_get name) (\<lambda>v. Inr (js_or v d))"

text \<open>The eight constants of lines 173 to 180, evaluated in that order.\<close>

record form_values =
  form_creator :: jsval
  form_platform :: jsval
  form_deviceInfo :: jsval
  form_browserInfo :: jsval
  form_userHP :: jsval
  form_correlationId :: jsval
  form_viewport :: jsval
  form_connectionType :: jsval

definition read_form :: "error + form_values" where
  "read_form =
     then_do (form_or ''creator'' (Str ''anonymous'')) (\<lambda>c.
     then_do (form_or ''platform'' (Str ''unknown'')) (\<lambda>pf.
     then_do (form_or ''deviceInfo'' (Str [])) (\<lambda>di.
     then_do (form_or ''browserInfo'' (Str [])) (\<lambda>bi.
     then_do (form_or ''userHP'' Null) (\<lambda>hp.
     then_do (form_or ''correlationId'' Null) (\<lambda>ci.
     then_do (form_or ''viewport'' Null) (\<lambda>vp.
     then_do (form_or ''connectionType'' Null) (\<lambda>ct.
       Inr \<lparr> form_creator = c, form_platform = pf, form_deviceInfo = di,
             form_browserInfo = bi, form_userHP = hp, form_correlationId = ci,
             form_viewport = vp, form_connectionType = ct \<rparr>))))))))"

text \<open>The encoder arguments of this variant: always a full encode.\<close>

definition ffArgs :: "env \<Rightarrow> string \<Rightarrow> string \<Rightarrow> string list" where
  "ffArgs e inputPath outputPath =
     [''-y'',
      ''-i'', inputPath,
      ''-c:v'', ''libx264'',
      ''-preset'', opt_or (e ''X264_PRESET'') ''veryfast'',
      ''-crf'', opt_or (e ''X264_CRF'') ''22'',
      ''-c:a'', ''aac'',
      ''-b:a'', opt_or (e ''AAC_BITRATE'') ''128k'',
      ''-movflags'', ''+faststart'',
      outputPath]"

text \<open>\<open>(req.body?.thumbnail ?? req.body?.thumbnailUrl ?? '').toString().trim()\<close>, then
  \<open>thumbnailRaw ? thumbnailRaw.slice(0, 2048) : ''\<close>.\<close>

definition thumbnail_of :: "request \<Rightarrow> string" where
  "thumbnail_of req =
     (let b = (case req_body req of None \<Rightarrow> (\<lambda>k. None) | Some m \<Rightarrow> m);
          raw = trim (case b ''thumbnail'' of
                        Some s \<Rightarrow> s
                      | None \<Rightarrow> (case b ''thumbnailUrl'' of Some s \<Rightarrow> s | None \<Rightarrow> []))
      in if raw \<noteq> [] then slice_to 2048 raw else [])"

text \<open>
  The \<open>keyvalues\<close> of the pin metadata, property by property: \<open>userHP.toString()\<close>
  raises a \<open>TypeError\<close> when \<open>userHP\<close> is \<open>null\<close>, and the last property reads
  \<open>sessionId\<close>.
\<close>

definition keyvalues ::
  "jsval \<Rightarrow> string \<Rightarrow> jsval \<Rightarrow> jsval \<Rightarrow> jsval \<Rightarrow> string \<Rightarrow> string
     \<Rightarrow> error + (string \<times> jsval) list" where
  "keyvalues creator rid pf details hp ip thumbnail =
     (if hp = Null \<or> hp = Undefined
      then Inl (Error (''Cannot read properties of '' @ to_string hp @ '' (reading ''
                        @ [CHR 0x27] @ ''toString'' @ [CHR 0x27] @ '')''))
      else then_do sessionId_ref (\<lambda>sid.
             Inr ([(''creator'', creator),
                   (''requestId'', Str rid),
                   (''platform'', pf),
                   (''deviceInfo'', details),
                   (''userHP'', Str (to_string hp)),
                   (''clientIP'', Str (slice_to 20 ip))]
                  @ (if thumbnail \<noteq> [] then [(''thumbnail'', Str thumbnail)] else [])
                  @ (if truthy sid then [(''sessionId'', sid)] else []))))"

text \<open>The values the handler computes from the request and the clock.\<close>

definition requestId :: "world \<Rightarrow> string" where
  "requestId w = slice_to 8 (uuid_first w)"

definition client_ip :: "request \<Rightarrow> string" where
  "client_ip req = opt_or (req_ip req) (opt_or (remoteAddress req) ''unknown'')"

definition user_agent :: "request \<Rightarrow> string" where
  "user_agent req = opt_or (req_get req ''User-Agent'') ''unknown''"

definition request_origin :: "request \<Rightarrow> string" where
  "request_origin req =
     opt_or (req_get req ''Origin'') (opt_or (req_get req ''Referer'') ''direct'')"

definition deviceDetails :: "form_values \<Rightarrow> request \<Rightarrow> jsval" where
  "deviceDetails fv req = parseDeviceInfo (user_agent req) (form_deviceInfo fv)"

text \<open>The body of the \<open>try\<close> block: the value it ends with, or the exception it
  raises, and the calls made up to that point.\<close>

definition try_block ::
  "env \<Rightarrow> world \<Rightarrow> request \<Rightarrow> form_values \<Rightarrow> string \<Rightarrow> string
     \<Rightarrow> (error + jsval \<times> string) \<times> call list" where
  "try_block e w req fv inputPath outputPath =
     (let args = ffArgs e inputPath outputPath in
      case runFfmpeg (ffmpeg_chunks w) (ffmpeg_code w) of
        Inl ex \<Rightarrow> (Inl ex, [Ffmpeg args])
      | Inr ok \<Rightarrow>
          if opt_or (e ''PINATA_JWT'') [] = []
          then (Inl (Error ''PINATA_JWT not configured on server''), [Ffmpeg args])
          else
            (case keyvalues (form_creator fv) (requestId w) (form_platform fv)
                    (deviceDetails fv req) (form_userHP fv) (client_ip req)
                    (thumbnail_of req) of
               Inl ex \<Rightarrow> (Inl ex, [Ffmpeg args])
             | Inr kv \<Rightarrow>
                 (let name = ''transcoded-'' @ iso_meta w @ ''.mp4'' in
                  case pin_result w of
                    Inl ex \<Rightarrow> (Inl ex, [Ffmpeg args, Pin name kv])
                  | Inr hash \<Rightarrow>
                      (Inr (hash, gatewayUrl e (to_string hash)),
                       [Ffmpeg args, Pin name kv]))))"

text \<open>The argument of \<open>logger.logTranscodeStart\<close>.\<close>

definition start_entry :: "form_values \<Rightarrow> world \<Rightarrow> request \<Rightarrow> log_entry" where
  "start_entry fv w req =
     no_entry\<lparr>
       log_id := Str (requestId w),
       user := form_creator fv,
       filename := (case req_file req of
                      None \<Rightarrow> Str ''unknown''
                    | Some f \<Rightarrow> js_or (Str (originalname f)) (Str ''unknown'')),
       fileSize := (case req_file req of
                      None \<Rightarrow> Num 0
                    | Some f \<Rightarrow> js_or (Num (int (size_bytes f))) (Num 0)),
       clientIP := Str (client_ip req),
       userAgent := Str (user_agent req),
       origin := Str (request_origin req),
       platform := form_platform fv,
       deviceInfo := deviceDetails fv req,
       browserInfo := form_browserInfo fv,
       userHP := form_userHP fv,
       correlationId := form_correlationId fv,
       viewport := form_viewport fv,
       connectionType := form_connectionType fv \<rparr>"

definition no_file_message :: string where
  "no_file_message =
     ''No file uploaded. Send multipart/form-data with field '' @ [CHR 0x22] @ ''video''
     @ [CHR 0x22] @ ''.''"

text \<open>
  The \<open>try\<close> block with its \<open>catch\<close>: the response sent, the recorder after the
  terminal entry is logged, and the calls made.  \<open>L1\<close> is the recorder after the start
  entry.
\<close>

definition try_catch ::
  "env \<Rightarrow> world \<Rightarrow> request \<Rightarrow> form_values \<Rightarrow> upload \<Rightarrow> string \<Rightarrow> string \<Rightarrow> logger
     \<Rightarrow> response \<times> logger \<times> call list" where
  "try_catch e w req fv f inputPath outputPath L1 =
     (let (r, calls) = try_block e w req fv inputPath outputPath;
          totalDuration = now_end w - now_start w
      in case r of
           Inr (hash, url) \<Rightarrow>
             (\<lparr> status_code = 200,
                 body = json [(''cid'', hash),
                              (''gatewayUrl'', Str url),
                              (''requestId'', Str (requestId w)),
                              (''duration'', Num totalDuration),
                              (''creator'', form_creator fv),
                              (''timestamp'', Str (iso_response w))] \<rparr>,
              logTranscodeComplete (iso_end w)
                (no_entry\<lparr> log_id := Str (requestId w), user := form_creator fv,
                   filename := Str (originalname f), cid := hash,
                   gateway_url := Str url, duration := Some totalDuration,
                   clientIP := Str (client_ip req) \<rparr>) L1,
              calls)
         | Inl ex \<Rightarrow>
             (\<lparr> status_code = 500,
                 body = json [(''error'', js_or (Str (message ex)) (Str ''Transcode failed'')),
                              (''requestId'', Str (requestId w)),
                              (''duration'', Num totalDuration),
                              (''timestamp'', Str (iso_response w))] \<rparr>,
              logTranscodeError (iso_end w)
                (no_entry\<lparr> log_id := Str (requestId w), user := form_creator fv,
                   filename := js_or (Str (originalname f)) (Str ''unknown''),
                   err := js_or (Str (message ex)) (ErrObj (message ex)),
                   duration := Some totalDuration,
                   clientIP := Str (client_ip req) \<rparr>) L1,
              calls))"

text \<open>
  The \<open>finally\<close> block: both temporary files are removed, the input first, and a
  failing removal is ignored.  The encoder may have created the output file before it
  ended (\<open>ffmpeg_wrote\<close>).  The result is the set of paths that exist afterwards.
\<close>

definition finally_block :: "world \<Rightarrow> string \<Rightarrow> string \<Rightarrow> string set" where
  "finally_block w inputPath outputPath =
     try_unlink (locked w) outputPath
       (try_unlink (locked w) inputPath
          (if ffmpeg_wrote w then insert outputPath (files w) else files w))"

text \<open>
  The handler.  It first reads the request id, the clock, the client address and two
  headers, none of which has an effect, and then the eight constants of lines 173 to 180.
  An exception raised there is outside every \<open>try\<close>: it ends the handler before the
  start of the operation is logged, before the check for the file and before the
  \<open>try\<close> block with its \<open>finally\<close>; the handler has then sent no response, logged
  nothing and removed nothing.  Past these lines the start of the operation is logged; a
  request without a file is answered at once; otherwise the \<open>try\<close> block runs, its
  result or its exception is logged and answered, and the \<open>finally\<close> block removes
  the two temporary files.
\<close>

definition transcode_handler :: "env \<Rightarrow> world \<Rightarrow> request \<Rightarrow> logger \<Rightarrow> outcome" where
  "transcode_handler e w req L =
     (case read_form of
        Inl ex \<Rightarrow>
          \<lparr> reply = None, rejected = Some ex, recorder = L, trace = [],
            files_after = files w \<rparr>
      | Inr fv \<Rightarrow>
          (let startTime = now_start w;
               L1 = logTranscodeStart (iso_start w) (now_logged w) (start_entry fv w req) L
           in case req_file req of
                None \<Rightarrow>
                  (let d = now_end w - startTime;
                       L2 = logTranscodeError (iso_end w)
                              (no_entry\<lparr> log_id := Str (requestId w), user := form_creator fv,
                                 filename := Str ''unknown'', err := Str ''No file uploaded'',
                                 duration := Some d, clientIP := Str (client_ip req) \<rparr>) L1
                   in \<lparr> reply = Some \<lparr> status_code = 400,
                                        body = json [(''error'', Str no_file_message)] \<rparr>,
                         rejected = None, recorder = L2, trace = [],
                         files_after = files w \<rparr>)
              | Some f \<Rightarrow>
                  (let inputPath = tmp_path f;
                       outName = uuid_second w @ ''.mp4'';
                       outputPath = tmpdir w @ ''/'' @ outName;
                       (resp, L2, calls) = try_catch e w req fv f inputPath outputPath L1
                   in \<lparr> reply = Some resp, rejected = None, recorder = L2,
                         trace = calls @ [Unlink inputPath, Unlink outputPath],
                         files_after = finally_block w inputPath outputPath \<rparr>)))"

section \<open>Notions used to state the properties\<close>

text \<open>The last \<open>n\<close> elements of a sequence, in order.\<close>

definition last_n :: "nat \<Rightarrow> 'a list \<Rightarrow> 'a list" where
  "last_n n xs = drop (length xs - n) xs"

text \<open>The constructor \<open>new TranscodeLogger(logFilePath, maxLogs)\<close>: no entries, then
  \<open>loadLogs\<close>.\<close>

definition TranscodeLogger :: "int \<Rightarrow> (string \<Rightarrow> log_entry option) \<Rightarrow> string option \<Rightarrow> logger" where
  "TranscodeLogger m parse file = loadLogs parse file \<lparr> maxLogs = m, logs = [] \<rparr>"

text \<open>A run of \<open>addLog\<close> calls, each with its time stamp.\<close>

fun appends :: "(string \<times> log_entry) list \<Rightarrow> logger \<Rightarrow> logger" where
  "appends [] L = L"
| "appends (tx # rest) L = appends rest (addLog (fst tx) (snd tx) L)"

text \<open>Sample entries and recorders.\<close>

definition ex_entry :: "nat \<Rightarrow> log_entry" where
  "ex_entry n = no_entry\<lparr> log_id := Num (int n) \<rparr>"

definition completed_example :: log_entry where
  "completed_example =
     no_entry\<lparr> status := Str ''completed'', success := Some True, duration := Some 1200 \<rparr>"

definition failed_example :: log_entry where
  "failed_example =
     no_entry\<lparr> status := Str ''failed'', success := Some False, duration := Some 300 \<rparr>"

text \<open>A recorder that holds 40 entries, 23 of them successful.\<close>

definition stats_example :: logger where
  "stats_example =
     \<lparr> maxLogs = 100, logs = replicate 23 completed_example @ replicate 17 failed_example \<rparr>"

text \<open>A request \<open>r1\<close> that starts with no browser information and no \<open>userHP\<close>, and
  then completes.\<close>

definition started_example :: logger where
  "started_example =
     logTranscodeStart ''2025-01-01T00:00:00.000Z'' 1735689600000
       (no_entry\<lparr> log_id := Str ''r1'', user := Str ''alice'', platform := Str ''web'' \<rparr>)
       new_logger"

definition finished_example :: logger where
  "finished_example =
     logTranscodeComplete ''2025-01-01T00:00:05.000Z''
       (no_entry\<lparr> log_id := Str ''r1'', user := Str ''alice'', duration := Some 5000 \<rparr>)
       started_example"

text \<open>The terminal entry takes a context field from the start entry \<open>s\<close> as
  \<open>s.field || null\<close>.\<close>

definition inherits_context :: "log_entry \<Rightarrow> log_entry \<Rightarrow> bool" where
  "inherits_context s t =
     (platform t = js_or (platform s) Null
      \<and> deviceInfo t = js_or (deviceInfo s) Null
      \<and> browserInfo t = js_or (browserInfo s) Null
      \<and> userHP t = js_or (userHP s) Null
      \<and> correlationId t = js_or (correlationId s) Null
      \<and> viewport t = js_or (viewport s) Null
      \<and> connectionType t = js_or (connectionType s) Null)"

text \<open>A configuration with \<open>FFMPEG_MAX_HEIGHT=1080\<close> and a probe result that is
  not H.264/AAC: a 1280x720 source.\<close>

definition cap_env :: env where
  "cap_env = (\<lambda>k. if k = ''FFMPEG_MAX_HEIGHT'' then Some ''1080'' else None)"

definition vp9_720p :: media_info where
  "vp9_720p = \<lparr> vcodec = Some ''vp9'', acodec = Some ''opus'',
                 width = Some 1280, height = Some 720 \<rparr>"

text \<open>The encode arguments after the input, with and without the scale filter.\<close>

definition encode_tail :: "env \<Rightarrow> string \<Rightarrow> string list" where
  "encode_tail e outputPath =
     [''-c:v'', ''libx264'',
      ''-preset'', opt_or (e ''X264_PRESET'') ''veryfast'',
      ''-crf'', opt_or (e ''X264_CRF'') ''22'',
      ''-threads'', opt_or (e ''FFMPEG_THREADS'') ''1'',
      ''-c:a'', ''aac'',
      ''-b:a'', opt_or (e ''AAC_BITRATE'') ''128k'',
      ''-movflags'', ''+faststart'',
      outputPath]"

section \<open>Properties\<close>

declare digits_of.simps [simp del]

declare number_to_string.simps [simp del]

subsection \<open>Strings\<close>

lemma foldl_append_concat: "foldl (\<lambda>acc d. acc @ d) a chunks = a @ concat chunks"
  by (induction chunks arbitrary: a) simp_all

lemma slice_from_neg: "0 < n \<Longrightarrow> slice_from (- int n) s = drop (length s - n) s"
  by (auto simp: slice_from_def max_def nat_diff_distrib')

lemma strip_decompose:
  "s = strip_trailing_slashes s
       @ replicate (length (takeWhile (\<lambda>c. c = CHR ''/'') (rev s))) (CHR ''/'')"
proof -
  let ?P = "\<lambda>c. c = CHR ''/''"
  let ?t = "takeWhile ?P (rev s)"
  have tw: "replicate (length ?t) (CHR ''/'') = ?t"
    by (rule replicate_length_same) (auto dest: set_takeWhileD)
  have "rev (rev s) = rev (?t @ dropWhile ?P (rev s))"
    by (simp only: takeWhile_dropWhile_id)
  then have "s = rev (dropWhile ?P (rev s)) @ rev ?t"
    by (simp only: rev_rev_ident rev_append)
  moreover have "rev ?t = replicate (length ?t) (CHR ''/'')"
    by (subst tw [symmetric]) (simp only: rev_replicate)
  ultimately show ?thesis
    by (simp only: strip_trailing_slashes_def)
qed

lemma strip_no_trailing: "\<not> suffix ''/'' (strip_trailing_slashes s)"
proof
  let ?P = "\<lambda>c. c = CHR ''/''"
  assume "suffix ''/'' (strip_trailing_slashes s)"
  then obtain zs where "strip_trailing_slashes s = zs @ ''/''" by (auto simp: suffix_def)
  then have "rev (strip_trailing_slashes s) = CHR ''/'' # rev zs" by simp
  then have d: "dropWhile ?P (rev s) = CHR ''/'' # rev zs"
    by (simp add: strip_trailing_slashes_def)
  then have "dropWhile ?P (rev s) \<noteq> []" by simp
  then have "\<not> ?P (hd (dropWhile ?P (rev s)))" by (rule hd_dropWhile)
  with d show False by simp
qed

subsection \<open>The gateway URL\<close>

text \<open>
  Claim C10.  For every configured gateway base and every content identifier, the gateway
  URL of the success response is the base without its trailing slashes, then one slash,
  then the identifier: the base is the stripped base followed by slashes only, the
  stripped base does not end in a slash, and the variant that strips the base when it
  reads the configuration builds the same URL.
\<close>

theorem gateway_url_join:
  "gatewayUrl e c = strip_trailing_slashes (PINATA_GATEWAY e) @ ''/'' @ c
   \<and> (\<exists>k. PINATA_GATEWAY e = strip_trailing_slashes (PINATA_GATEWAY e) @ replicate k (CHR ''/''))
   \<and> \<not> suffix ''/'' (strip_trailing_slashes (PINATA_GATEWAY e))
   \<and> gatewayUrl_probing e c = gatewayUrl e c"
proof -
  have "\<exists>k. PINATA_GATEWAY e = strip_trailing_slashes (PINATA_GATEWAY e) @ replicate k (CHR ''/'')"
    using strip_decompose [of "PINATA_GATEWAY e"] by (rule exI)
  moreover have "gatewayUrl_probing e c = gatewayUrl e c"
    by (simp add: gatewayUrl_def gatewayUrl_probing_def PINATA_GATEWAY_stripped_def
        PINATA_GATEWAY_def)
  moreover have "gatewayUrl e c = strip_trailing_slashes (PINATA_GATEWAY e) @ ''/'' @ c"
    by (simp add: gatewayUrl_def)
  ultimately show ?thesis using strip_no_trailing [of "PINATA_GATEWAY e"] by blast
qed

subsection \<open>The encoding subprocess\<close>

text \<open>
  Claim C4.  Exit code 0 resolves.  Every other exit code (and \<open>null\<close>) rejects with the
  message \<open>ffmpeg exited with <code>: <tail>\<close>, where the tail is the accumulated
  diagnostic output without all but its last 4000 code units; the tail has
  \<open>min 4000 n\<close> code units when the subprocess wrote \<open>n\<close>.
\<close>

theorem runFfmpeg_exit:
  assumes "code \<noteq> Some 0"
  shows "runFfmpeg chunks (Some 0) = Inr ()
     \<and> runFfmpeg chunks code =
         Inl (Error (''ffmpeg exited with '' @ show_code code @ '': ''
                      @ drop (length (concat chunks) - 4000) (concat chunks)))
     \<and> length (drop (length (concat chunks) - 4000) (concat chunks))
         = min 4000 (length (concat chunks))"
proof -
  have "slice_from (- 4000) (concat chunks) = drop (length (concat chunks) - 4000) (concat chunks)"
    using slice_from_neg [of 4000 "concat chunks"] by simp
  then show ?thesis
    using assms by (simp add: runFfmpeg_def foldl_append_concat)
qed

theorem runFfmpeg_exit_witness:
  "Some (1::int) \<noteq> Some 0
   \<and> runFfmpeg [''abc'', ''def''] (Some 1) = Inl (Error ''ffmpeg exited with 1: abcdef'')"
  using runFfmpeg_exit [of "Some 1" "[''abc'', ''def'']"]
  by (simp add: show_code_def show_int_def digits_of.simps [of "Suc 0"])

subsection \<open>Remux or encode\<close>

lemma encode_args_length: "17 \<le> length (encode_args e i p)"
  by (simp add: encode_args_def split: option.split)

lemma encode_not_remux: "encode_args e i p \<noteq> remux_args i p"
proof
  assume "encode_args e i p = remux_args i p"
  then have "length (encode_args e i p) = length (remux_args i p)" by simp
  with encode_args_length [of e i p] show False by (simp add: remux_args_def)
qed

lemma sublist_mid: "sublist xs (a @ b @ c @ xs @ d)"
  unfolding sublist_def by (rule exI [of _ "a @ b @ c"], rule exI [of _ d]) simp

lemma encode_args_video: "sublist [''-c:v'', ''libx264''] (encode_args e i p)"
proof -
  have eq: "encode_args e i p =
      [''-y'', ''-i'', i]
      @ (case scale_target (maxH e) of None \<Rightarrow> [] | Some n \<Rightarrow> [''-vf'', ''scale=-2:'' @ number_to_string (Finite n)])
      @ [] @ [''-c:v'', ''libx264'']
      @ [''-preset'', opt_or (e ''X264_PRESET'') ''veryfast'',
         ''-crf'', opt_or (e ''X264_CRF'') ''22'',
         ''-threads'', opt_or (e ''FFMPEG_THREADS'') ''1'',
         ''-c:a'', ''aac'', ''-b:a'', opt_or (e ''AAC_BITRATE'') ''128k'',
         ''-movflags'', ''+faststart'', p]"
    by (simp add: encode_args_def)
  show ?thesis unfolding eq by (rule sublist_mid)
qed

lemma encode_args_audio: "sublist [''-c:a'', ''aac''] (encode_args e i p)"
proof -
  have eq: "encode_args e i p =
      [''-y'', ''-i'', i]
      @ (case scale_target (maxH e) of None \<Rightarrow> [] | Some n \<Rightarrow> [''-vf'', ''scale=-2:'' @ number_to_string (Finite n)])
      @ [''-c:v'', ''libx264'',
         ''-preset'', opt_or (e ''X264_PRESET'') ''veryfast'',
         ''-crf'', opt_or (e ''X264_CRF'') ''22'',
         ''-threads'', opt_or (e ''FFMPEG_THREADS'') ''1'']
      @ [''-c:a'', ''aac'']
      @ [''-b:a'', opt_or (e ''AAC_BITRATE'') ''128k'', ''-movflags'', ''+faststart'', p]"
    by (simp add: encode_args_def)
  show ?thesis unfolding eq by (rule sublist_mid)
qed

lemma encode_args_no_copy: "\<not> sublist [''-c'', ''copy''] (encode_args e i p)"
  by (simp add: encode_args_def sublist_Cons_right split: option.split)

lemma remux_args_copy: "sublist [''-c'', ''copy''] (remux_args i p)"
proof -
  have eq: "remux_args i p
      = [''-y'', ''-i'', i] @ [] @ [] @ [''-c'', ''copy''] @ [''-movflags'', ''+faststart'', p]"
    by (simp add: remux_args_def)
  show ?thesis unfolding eq by (rule sublist_mid)
qed

text \<open>
  Claim C1.  The handler runs the stream copy exactly when the probe reports the video
  codec \<open>h264\<close> and the audio codec \<open>aac\<close>; in every other case, a missing stream
  included, it runs the full encode.  The stream copy is the encoder run with
  \<open>-y -i <input> -c copy -movflags +faststart <output>\<close>; the arguments of the full
  encode select \<open>libx264\<close> and \<open>aac\<close>.  Changing the probed frame size or the
  configuration (the height cap with it) does not change which of the two is run.
\<close>

theorem remux_iff_h264_aac:
  "((transcode_args e i p info = remux_args i p)
      = (vcodec info = Some ''h264'' \<and> acodec info = Some ''aac''))
   \<and> ((transcode_args e i p info = encode_args e i p)
        = (\<not> (vcodec info = Some ''h264'' \<and> acodec info = Some ''aac'')))
   \<and> ((transcode_args e' i p (info\<lparr> width := w, height := h \<rparr>) = remux_args i p)
        = (transcode_args e i p info = remux_args i p))
   \<and> sublist [''-c:v'', ''libx264''] (encode_args e i p)
   \<and> sublist [''-c:a'', ''aac''] (encode_args e i p)
   \<and> remux_args i p
       = [''-y'', ''-i'', i, ''-c'', ''copy'', ''-movflags'', ''+faststart'', p]
   \<and> sublist [''-c'', ''copy''] (remux_args i p)
   \<and> \<not> sublist [''-c'', ''copy''] (encode_args e i p)"
proof -
  have 1: "(transcode_args e i p info = remux_args i p)
      = (vcodec info = Some ''h264'' \<and> acodec info = Some ''aac'')" for e info
    using encode_not_remux [of e i p] by (simp add: transcode_args_def)
  have 2: "(transcode_args e i p info = encode_args e i p)
        = (\<not> (vcodec info = Some ''h264'' \<and> acodec info = Some ''aac''))"
    using encode_not_remux [of e i p] by (auto simp: transcode_args_def)
  have 3: "(transcode_args e' i p (info\<lparr> width := w, height := h \<rparr>) = remux_args i p)
        = (transcode_args e i p info = remux_args i p)"
    by (simp add: 1)
  have 4: "remux_args i p
       = [''-y'', ''-i'', i, ''-c'', ''copy'', ''-movflags'', ''+faststart'', p]"
    by (simp add: remux_args_def)
  show ?thesis
    using 1 2 3 4 encode_args_video encode_args_audio remux_args_copy encode_args_no_copy
    by blast
qed

subsection \<open>The recorder's bound\<close>

lemma last_n_rev: "last_n n xs = rev (take n (rev xs))"
  by (simp add: last_n_def take_rev)

lemma last_n_absorb: "last_n n (last_n n xs @ ys) = last_n n (xs @ ys)"
  by (simp add: last_n_rev min_def)

lemma length_last_n: "length (last_n n xs) \<le> n"
  by (simp add: last_n_def)

lemma slice_from_last_n: "0 < m \<Longrightarrow> slice_from (- m) xs = last_n (nat m) xs"
  using slice_from_neg [of "nat m" xs] by (simp add: last_n_def)

lemma logs_addLog:
  "0 < maxLogs L \<Longrightarrow> logs (addLog ts x L) = last_n (nat (maxLogs L)) (logs L @ [enrich ts x])"
  by (simp add: addLog_def saveLogs_def slice_from_last_n)

lemma maxLogs_addLog: "maxLogs (addLog ts x L) = maxLogs L"
  by (simp add: addLog_def saveLogs_def)

lemma logs_appends:
  "0 < maxLogs L \<Longrightarrow> logs L = last_n (nat (maxLogs L)) ys \<Longrightarrow>
   logs (appends xs L) = last_n (nat (maxLogs L)) (ys @ map (\<lambda>tx. enrich (fst tx) (snd tx)) xs)
   \<and> maxLogs (appends xs L) = maxLogs L"
proof (induction xs arbitrary: L ys)
  case Nil
  then show ?case by simp
next
  case (Cons tx rest)
  let ?L' = "addLog (fst tx) (snd tx) L"
  have m: "maxLogs ?L' = maxLogs L" by (rule maxLogs_addLog)
  have "logs ?L' = last_n (nat (maxLogs L)) (ys @ [enrich (fst tx) (snd tx)])"
    using Cons.prems by (simp add: logs_addLog last_n_absorb)
  with Cons.IH [of ?L' "ys @ [enrich (fst tx) (snd tx)]"] Cons.prems(1) m
  show ?case by simp
qed

lemma length_loadLogs:
  "0 < m \<Longrightarrow> length (logs (TranscodeLogger m parse file)) \<le> nat m"
  by (simp add: TranscodeLogger_def loadLogs_def slice_from_last_n length_last_n
      split: option.split)

text \<open>
  Claim C9.  With a positive \<open>maxLogs\<close> (100 unless the constructor is given another
  value), the sequence after an append is the last \<open>maxLogs\<close> elements of the old
  sequence followed by the new entry, so it has at most \<open>maxLogs\<close> entries and the oldest
  go first; after any further run of appends it is the last \<open>maxLogs\<close> elements of
  everything appended so far, in order; and the constructor, which loads the persisted
  entries, leaves at most \<open>maxLogs\<close> of them.
\<close>

theorem recorder_bounded:
  assumes "0 < maxLogs L"
  shows "logs (addLog ts x L) = last_n (nat (maxLogs L)) (logs L @ [enrich ts x])
     \<and> length (logs (addLog ts x L)) \<le> nat (maxLogs L)
     \<and> logs (appends xs (addLog ts x L))
         = last_n (nat (maxLogs L))
             (logs L @ enrich ts x # map (\<lambda>tx. enrich (fst tx) (snd tx)) xs)
     \<and> length (logs (TranscodeLogger (maxLogs L) parse file)) \<le> nat (maxLogs L)"
proof -
  have a: "logs (addLog ts x L) = last_n (nat (maxLogs L)) (logs L @ [enrich ts x])"
    using assms by (rule logs_addLog)
  have b: "length (logs (addLog ts x L)) \<le> nat (maxLogs L)"
    unfolding a by (rule length_last_n)
  have c: "logs (appends xs (addLog ts x L))
         = last_n (nat (maxLogs L))
             (logs L @ enrich ts x # map (\<lambda>tx. enrich (fst tx) (snd tx)) xs)"
    using logs_appends [of "addLog ts x L" "logs L @ [enrich ts x]" xs] assms a
    by (simp add: maxLogs_addLog)
  show ?thesis using a b c length_loadLogs [OF assms] by blast
qed

theorem recorder_bounded_witness:
  "0 < maxLogs \<lparr> maxLogs = 2, logs = [ex_entry 1, ex_entry 2] \<rparr>
   \<and> logs (addLog ''t'' (ex_entry 3) \<lparr> maxLogs = 2, logs = [ex_entry 1, ex_entry 2] \<rparr>)
       = [ex_entry 2, enrich ''t'' (ex_entry 3)]"
  using recorder_bounded [of "\<lparr> maxLogs = 2, logs = [ex_entry 1, ex_entry 2] \<rparr>" "''t''" "ex_entry 3"]
  by (simp add: last_n_def)

subsection \<open>The aggregate statistics\<close>

lemma rate_23_40: "Math_round (fmul (fdiv 23 40) 100) = 57"
  by code_simp

lemma exact_23_40: "Math_round (100 * 23 / 40) = 58"
  by code_simp

lemma getStats_no_entries: "logs L = [] \<Longrightarrow> successRate (getStats L) = 0"
  by (simp add: getStats_def)

text \<open>
  Claim C7, evaluated on a recorder that holds 40 entries of which 23 are successful.
  \<open>getStats\<close> computes \<open>(successful / total) * 100\<close> in double precision: the quotient
  is the double nearest to 0.575, which lies below it, and the product is the double
  57.49999999999999, so \<open>Math.round\<close> gives 57; the claim's
  \<open>round(100 * successful / total)\<close> is the rounding of 57.5, which is 58.
\<close>

theorem getStats_rate_23_of_40:
  "total (getStats stats_example) = 40
   \<and> successful (getStats stats_example) = 23
   \<and> successRate (getStats stats_example) = 57
   \<and> Math_round (100 * 23 / 40) = 58"
proof -
  have n: "length (logs stats_example) = 40"
    by (simp add: stats_example_def)
  have ok: "length (filter (\<lambda>l. success l = Some True) (logs stats_example)) = 23"
    by (simp add: stats_example_def completed_example_def failed_example_def no_entry_def)
  have t: "total (getStats stats_example) = 40"
    by (simp add: getStats_def Let_def n)
  have s: "successful (getStats stats_example) = 23"
    by (simp add: getStats_def Let_def ok)
  have r: "successRate (getStats stats_example) = 57"
    by (simp add: getStats_def Let_def n ok rate_23_40)
  show ?thesis using t s r exact_23_40 by blast
qed

subsection \<open>Context inherited by the terminal entry\<close>

lemma last_last_n: "0 < n \<Longrightarrow> last (last_n n (xs @ [x])) = x"
  by (simp add: last_n_def)

lemma find_start_SomeD:
  "find_start i L = Some s \<Longrightarrow> s \<in> set (logs L) \<and> log_id s = i \<and> status s = Str ''started''"
  by (auto simp: find_start_def find_Some_iff)

lemma complete_last:
  assumes "find_start (log_id a) L = Some s" and "0 < maxLogs L"
  shows "inherits_context s (last (logs (logTranscodeComplete ts a L)))"
    and "status (last (logs (logTranscodeComplete ts a L))) = Str ''completed''"
    and "logs (logTranscodeComplete ts a L)
          = last_n (nat (maxLogs L)) (logs L @ [last (logs (logTranscodeComplete ts a L))])"
  using assms
  by (simp_all add: logTranscodeComplete_def Let_def logs_addLog last_last_n
      inherits_context_def inherit_def enrich_def)

lemma error_last:
  assumes "find_start (log_id a) L = Some s" and "0 < maxLogs L"
  shows "inherits_context s (last (logs (logTranscodeError ts a L)))"
    and "status (last (logs (logTranscodeError ts a L))) = Str ''failed''"
    and "logs (logTranscodeError ts a L)
          = last_n (nat (maxLogs L)) (logs L @ [last (logs (logTranscodeError ts a L))])"
  using assms
  by (simp_all add: logTranscodeError_def Let_def logs_addLog last_last_n
      inherits_context_def inherit_def enrich_def)

lemma started_example_logs:
  "logs started_example =
     [no_entry\<lparr> log_id := Str ''r1'', status := Str ''started'', user := Str ''alice'',
        platform := Str ''web'', deviceInfo := Str ''unknown'', browserInfo := Str [],
        userHP := Num 0, correlationId := Null, viewport := Null, connectionType := Null,
        startTime := Num 1735689600000, timestamp := Str ''2025-01-01T00:00:00.000Z'' \<rparr>]"
  by (simp add: started_example_def logTranscodeStart_def addLog_def saveLogs_def enrich_def
      new_logger_def slice_from_def js_or_def no_entry_def)

lemma started_example_maxLogs: "maxLogs started_example = 100"
  by (simp add: started_example_def logTranscodeStart_def maxLogs_addLog new_logger_def)

text \<open>
  Claim C8 as stated fails.  A request that sends neither browser information nor
  \<open>userHP\<close> gets a start entry with \<open>browserInfo = ''\<close> and \<open>userHP = 0\<close> (the defaults
  of \<open>logTranscodeStart\<close>); the start entry is found by its id when the request
  completes, and the terminal entry holds \<open>null\<close> in both fields, not the values of the
  start entry.
\<close>

theorem terminal_context_counterexample:
  "find_start (Str ''r1'') started_example = Some (hd (logs started_example))
   \<and> userHP (hd (logs started_example)) = Num 0
   \<and> userHP (last (logs finished_example)) = Null
   \<and> browserInfo (hd (logs started_example)) = Str []
   \<and> browserInfo (last (logs finished_example)) = Null"
proof -
  have f: "find_start (Str ''r1'') started_example = Some (hd (logs started_example))"
    by (simp add: find_start_def started_example_logs no_entry_def)
  have "0 < maxLogs started_example" by (simp add: started_example_maxLogs)
  then have l: "last (logs finished_example)
      = enrich ''2025-01-01T00:00:05.000Z''
          (no_entry\<lparr> log_id := Str ''r1'', status := Str ''completed'', user := Str ''alice'',
             duration := Some 5000, success := Some True,
             platform := js_or (platform (hd (logs started_example))) Null,
             deviceInfo := js_or (deviceInfo (hd (logs started_example))) Null,
             browserInfo := js_or (browserInfo (hd (logs started_example))) Null,
             userHP := js_or (userHP (hd (logs started_example))) Null,
             correlationId := js_or (correlationId (hd (logs started_example))) Null,
             viewport := js_or (viewport (hd (logs started_example))) Null,
             connectionType := js_or (connectionType (hd (logs started_example))) Null \<rparr>)"
    by (simp add: finished_example_def logTranscodeComplete_def Let_def logs_addLog last_last_n
        f inherit_def js_or_def no_entry_def)
  show ?thesis
    unfolding l using f
    by (simp add: started_example_logs enrich_def js_or_def no_entry_def)
qed

text \<open>
  Claim C8, amended.  When the start entry \<open>s\<close> of the request id is retained (it is the
  first retained entry with that id and the status \<open>started\<close>), the entry appended by
  \<open>logTranscodeComplete\<close> or \<open>logTranscodeError\<close> takes each of \<open>platform\<close>,
  \<open>deviceInfo\<close>, \<open>browserInfo\<close>, \<open>userHP\<close>, \<open>correlationId\<close>, \<open>viewport\<close> and
  \<open>connectionType\<close> as \<open>s.field || null\<close>: the value of \<open>s\<close> when that value is
  truthy, \<open>null\<close> when it is empty, zero or absent.  The sequence afterwards is the last
  \<open>maxLogs\<close> elements of the old sequence followed by the new entry, so every retained
  old entry, \<open>s\<close> included, is as it was.
\<close>

theorem terminal_inherits_context:
  assumes "find_start (log_id a) L = Some s" and "0 < maxLogs L"
  shows "s \<in> set (logs L) \<and> log_id s = log_id a \<and> status s = Str ''started''
     \<and> inherits_context s (last (logs (logTranscodeComplete ts a L)))
     \<and> inherits_context s (last (logs (logTranscodeError ts a L)))
     \<and> logs (logTranscodeComplete ts a L)
          = last_n (nat (maxLogs L)) (logs L @ [last (logs (logTranscodeComplete ts a L))])
     \<and> logs (logTranscodeError ts a L)
          = last_n (nat (maxLogs L)) (logs L @ [last (logs (logTranscodeError ts a L))])"
  using find_start_SomeD [OF assms(1)] complete_last [OF assms] error_last [OF assms]
  by blast

theorem terminal_inherits_context_witness:
  "find_start (log_id (no_entry\<lparr> log_id := Str ''r1'' \<rparr>)) started_example
     = Some (hd (logs started_example))
   \<and> 0 < maxLogs started_example
   \<and> platform (last (logs (logTranscodeError ''t'' (no_entry\<lparr> log_id := Str ''r1'' \<rparr>)
                              started_example))) = Str ''web''"
proof -
  have f: "find_start (log_id (no_entry\<lparr> log_id := Str ''r1'' \<rparr>)) started_example
      = Some (hd (logs started_example))"
    by (simp add: find_start_def started_example_logs no_entry_def)
  have p: "0 < maxLogs started_example" by (simp add: started_example_maxLogs)
  show ?thesis
    using terminal_inherits_context [OF f p, of "''t''"] f p
    by (simp add: inherits_context_def started_example_logs js_or_def no_entry_def)
qed

subsection \<open>The height of the encoded output\<close>

lemma maxH_cap_env: "maxH cap_env = Some (Finite 1080)"
  by code_simp

lemma render_1080: "number_to_string (Finite 1080) = ''1080''"
  by code_simp

lemma scale_target_Finite: "h \<noteq> 0 \<Longrightarrow> scale_target (Some (Finite h)) = Some h"
  by (simp add: scale_target_def)

text \<open>
  Claim C3 as stated fails.  With \<open>FFMPEG_MAX_HEIGHT=1080\<close> and a source probed as
  VP9/Opus at 1280x720, the cap is not below the source height, and yet the handler passes
  \<open>-vf scale=-2:1080\<close>: the encoder is asked for frames 1080 high, not 720.
\<close>

theorem upscale_counterexample:
  "\<not> (vcodec vp9_720p = Some ''h264'' \<and> acodec vp9_720p = Some ''aac'')
   \<and> maxH cap_env = Some (Finite 1080)
   \<and> height vp9_720p = Some 720
   \<and> (720 :: int) \<le> 1080
   \<and> transcode_args cap_env ''in.webm'' ''out.mp4'' vp9_720p
       = [''-y'', ''-i'', ''in.webm'', ''-vf'', ''scale=-2:1080'']
         @ encode_tail cap_env ''out.mp4''
   \<and> output_height cap_env vp9_720p 720 = 1080"
  by (simp add: maxH_cap_env render_1080 transcode_args_def encode_args_def encode_tail_def
      output_height_def scale_target_def vp9_720p_def)

text \<open>
  Claim C3, amended.  The full-encode path does not compare the cap with the probed
  height.  For a request on that path with a positive max height \<open>h\<close> configured that
  is greater than or equal to the source height, the handler still passes
  \<open>-vf scale=-2:h\<close>, and the height asked of the encoder is \<open>h\<close>, not the source
  height.
\<close>

theorem encode_scales_to_configured_height:
  assumes "\<not> (vcodec info = Some ''h264'' \<and> acodec info = Some ''aac'')"
    and "maxH e = Some (Finite h)" and "0 < h" and "src \<le> h"
  shows "transcode_args e i p info
           = [''-y'', ''-i'', i, ''-vf'', ''scale=-2:'' @ number_to_string (Finite h)]
             @ encode_tail e p
     \<and> output_height e info src = h"
proof -
  have t: "scale_target (maxH e) = Some h"
    using assms(2,3) by (simp add: scale_target_Finite)
  have a: "transcode_args e i p info = encode_args e i p"
    using assms(1) by (auto simp: transcode_args_def)
  have b: "encode_args e i p
           = [''-y'', ''-i'', i, ''-vf'', ''scale=-2:'' @ number_to_string (Finite h)]
             @ encode_tail e p"
    by (simp add: encode_args_def encode_tail_def t)
  have c: "output_height e info src = h"
    using assms(1,3) by (auto simp: output_height_def t)
  show ?thesis using a b c by simp
qed

theorem encode_scales_to_configured_height_witness:
  "\<not> (vcodec vp9_720p = Some ''h264'' \<and> acodec vp9_720p = Some ''aac'')
   \<and> maxH cap_env = Some (Finite 1080) \<and> (0 :: int) < 1080 \<and> (720 :: int) \<le> 1080
   \<and> output_height cap_env vp9_720p 720 = 1080"
proof -
  have n: "\<not> (vcodec vp9_720p = Some ''h264'' \<and> acodec vp9_720p = Some ''aac'')"
    by (simp add: vp9_720p_def)
  show ?thesis
    using encode_scales_to_configured_height [OF n maxH_cap_env, of 720 "''in.webm''" "''out.mp4''"]
      n maxH_cap_env
    by simp
qed

subsection \<open>The undeclared identifier in the request handler\<close>

lemma read_form_raises: "read_form = Inl (Error ''formData is not defined'')"
  by (simp add: read_form_def form_or_def formData_get_def then_do_def)

lemma handler_rejected:
  "transcode_handler e w req L
     = \<lparr> reply = None, rejected = Some (Error ''formData is not defined''),
         recorder = L, trace = [], files_after = files w \<rparr>"
  by (simp add: transcode_handler_def read_form_raises)

text \<open>
  Claim C2, evaluated on the requests without a file.  Line 173 evaluates \<open>formData\<close>,
  which is declared nowhere: the handler ends with a \<open>ReferenceError\<close> before it logs
  the start of the operation and before it checks for the file.  It sends no response,
  so there is no 400; the recorder is as it was, so it has received no \<open>failed\<close> entry;
  and no call has left the process.
\<close>

theorem no_file_request_unanswered:
  "reply (transcode_handler e w (req\<lparr> req_file := None \<rparr>) L) = None
   \<and> rejected (transcode_handler e w (req\<lparr> req_file := None \<rparr>) L)
       = Some (Error ''formData is not defined'')
   \<and> recorder (transcode_handler e w (req\<lparr> req_file := None \<rparr>) L) = L
   \<and> trace (transcode_handler e w (req\<lparr> req_file := None \<rparr>) L) = []"
  by (simp add: handler_rejected)

text \<open>
  Claim C5, evaluated on the requests with a file.  The \<open>ReferenceError\<close> of line 173
  is raised before the \<open>try\<close> block is entered, so its \<open>finally\<close> block does not
  run: the handler makes no call, no removal among them, and the files are the ones that
  existed when it was entered, the stored upload included.
\<close>

theorem upload_not_removed:
  "trace (transcode_handler e w (req\<lparr> req_file := Some f \<rparr>) L) = []
   \<and> files_after (transcode_handler e w (req\<lparr> req_file := Some f \<rparr>) L) = files w
   \<and> rejected (transcode_handler e w (req\<lparr> req_file := Some f \<rparr>) L)
       = Some (Error ''formData is not defined'')"
  by (simp add: handler_rejected)

text \<open>
  Claim C6, evaluated on every request.  Whatever the request, the configuration and the
  behaviour of the encoder and of the pinning service, the handler sends no response:
  neither the success body nor an error body with the request id and the duration.  Its
  promise is rejected with the \<open>ReferenceError\<close>.
\<close>

theorem handler_sends_no_response:
  "reply (transcode_handler e w req L) = None
   \<and> rejected (transcode_handler e w req L) = Some (Error ''formData is not defined'')"
  by (simp add: handler_rejected)

end
